theory Spec2Isabelle
  imports Main
begin

section \<open>The transparent proxy worker (src/index.js)\<close>

text \<open>
  The worker answers S3-style requests in front of an R2 bucket. A GET or HEAD is
  resolved from the bucket, on a miss from the source storage (lazy loading), and an
  object fetched there is written back to the bucket and announced on a queue. PUT and
  DELETE go to the bucket and are announced too.

  The worker's collaborators (the bucket, the network, the queue, the clock) are not part
  of the repository. They are modelled as follows.
  \<^item> The bucket is a map from keys to stored objects, the queue the list of accepted
    messages, and every call to a collaborator is appended to a trace.
  \<^item> What a collaborator answers is a field of the environment: the answer of the
    network to a URL, whether a \<open>put\<close>, a \<open>delete\<close> or a \<open>send\<close> throws. These are
    the failures the source catches (lines 222, 247, 314, 334, 351). A \<open>get\<close> on the
    bucket, which the source calls outside any handler, answers with the object or with
    \<open>null\<close>.
  \<^item> A body is a \<open>ReadableStream\<close>: an object on a heap, readable once. Reading it marks
    it as disturbed, and (Fetch standard, "extract a body") a disturbed stream given to
    \<open>new Response\<close> makes the constructor throw a \<open>TypeError\<close>. The body of a
    response that carries no content (204, 205) is \<open>null\<close>.
  \<^item> A \<open>Headers\<close> object refuses a name that is not a token and a value with a NUL, CR
    or LF inside: \<open>set\<close> throws a \<open>TypeError\<close> (Fetch standard, the definitions of
    a header name and of a header value).
\<close>

subsection \<open>Strings, headers and plain objects\<close>

text \<open>\<open>toLowerCase\<close> on the ASCII letters, which is all that header names use.\<close>

definition lower_char :: "char \<Rightarrow> char" where
  "lower_char c =
     (case map_of (zip ''ABCDEFGHIJKLMNOPQRSTUVWXYZ'' ''abcdefghijklmnopqrstuvwxyz'') c of
        None \<Rightarrow> c
      | Some l \<Rightarrow> l)"

definition toLowerCase :: "string \<Rightarrow> string" where
  "toLowerCase s = map lower_char s"

text \<open>\<open>s.startsWith(p)\<close> and \<open>s.substring(n)\<close>.\<close>

definition startsWith :: "string \<Rightarrow> string \<Rightarrow> bool" where
  "startsWith s p = (take (length p) s = p)"

definition substring :: "string \<Rightarrow> nat \<Rightarrow> string" where
  "substring s n = drop n s"

text \<open>
  A value that may be \<open>null\<close> or \<open>undefined\<close> is an option. In a condition JavaScript
  takes \<open>null\<close>, \<open>undefined\<close> and the empty string for false.
\<close>

definition truthy :: "string option \<Rightarrow> bool" where
  "truthy v = (case v of None \<Rightarrow> False | Some s \<Rightarrow> s \<noteq> [])"

definition or_default :: "string option \<Rightarrow> string \<Rightarrow> string" where
  "or_default v d = (case v of None \<Rightarrow> d | Some s \<Rightarrow> if s = [] then d else s)"

text \<open>
  A plain object (\<open>metadata[k] = v\<close>, object spread) is an association list in insertion
  order; assigning an existing key keeps its place.
\<close>

fun obj_set :: "string \<Rightarrow> string \<Rightarrow> (string \<times> string) list \<Rightarrow> (string \<times> string) list" where
  "obj_set k v [] = [(k, v)]"
| "obj_set k v ((k', v') # kvs) =
     (if k' = k then (k', v) # kvs else (k', v') # obj_set k v kvs)"

text \<open>
  A header name is a token: one or more of the characters below. A header value is
  normalised, that is stripped of the HTTP whitespace at its ends, and then has no NUL, LF
  or CR.
\<close>

definition tchar :: "char \<Rightarrow> bool" where
  "tchar c =
     (c \<in> set (''!#$%&*+-.^_|~0123456789'' @ [CHR 0x27, CHR 0x60] @
                ''abcdefghijklmnopqrstuvwxyz'' @ ''ABCDEFGHIJKLMNOPQRSTUVWXYZ''))"

definition valid_header_name :: "string \<Rightarrow> bool" where
  "valid_header_name n = (n \<noteq> [] \<and> list_all tchar n)"

definition http_whitespace :: "char \<Rightarrow> bool" where
  "http_whitespace c = (c \<in> set [CHR 0x09, CHR 0x0A, CHR 0x0D, CHR 0x20])"

definition normalize_value :: "string \<Rightarrow> string" where
  "normalize_value v = rev (dropWhile http_whitespace (rev (dropWhile http_whitespace v)))"

definition forbidden_byte :: "char \<Rightarrow> bool" where
  "forbidden_byte c = (c \<in> set [CHR 0x00, CHR 0x0A, CHR 0x0D])"

definition valid_header_value :: "string \<Rightarrow> bool" where
  "valid_header_value v = list_all (\<lambda>c. \<not> forbidden_byte c) (normalize_value v)"

text \<open>
  A \<open>Headers\<close> object keeps header names in lower case: \<open>get\<close> and \<open>set\<close> ignore the
  case of the name they are given. The list is in the order in which the names were first
  set; the properties below only look names up. \<open>set\<close> throws on a name or a value that
  is not valid, and stores the normalised value.
\<close>

type_synonym headers = "(string \<times> string) list"

definition headers_get :: "headers \<Rightarrow> string \<Rightarrow> string option" where
  "headers_get hs name = map_of hs (toLowerCase name)"

subsection \<open>Data\<close>

text \<open>\<open>StorageError(message, status, code)\<close>, and any other exception of the platform.\<close>

datatype error =
  StorageError string nat string
| PlatformError string

record stream =
  bytes :: string
  disturbed :: bool

type_synonym addr = nat

record http_metadata =
  contentType :: "string option"
  contentLength :: "string option"
  cacheControl :: "string option"

text \<open>
  The object of \<open>handleGetRequest\<close>: what \<open>R2_BUCKET.get\<close> returns, or the "simulated R2
  object" of \<open>fetchFromSourceStorage\<close>.
\<close>

record r2_object =
  body :: "addr option"
  httpEtag :: "string option"
  httpMetadata :: "http_metadata option"
  customMetadata :: "(string \<times> string) list option"
  uploaded :: "string option"

text \<open>What the bucket keeps for a key.\<close>

record stored =
  s_data :: string
  s_contentType :: "string option"
  s_cacheControl :: "string option"
  s_customMetadata :: "(string \<times> string) list"
  s_etag :: string
  s_uploaded :: string

datatype action = UPLOADED | DELETED | LAZY_LOADED

record sync_event =
  ev_key :: string
  ev_action :: action
  ev_timestamp :: string

datatype body_init = BodyNull | BodyText string | BodyStream addr

record response =
  resp_status :: nat
  resp_headers :: headers
  resp_body :: body_init

record request =
  req_method :: string
  req_hostname :: string
  req_pathname :: string
  req_headers :: headers
  req_body :: "addr option"

text \<open>The calls to collaborators, in the order they are made.\<close>

datatype call =
  R2Get string
| R2Put string "addr option"
| R2Delete string
| OriginFetch string
| QueueSend sync_event

record world =
  bucket :: "string \<rightharpoonup> stored"
  streams :: "stream list"
  queue :: "sync_event list"
  trace :: "call list"

text \<open>
  The answer of the network to \<open>fetch(url)\<close>: an exception (unreachable, timed out), or a
  response with its status, its header fields (names in lower case) and the bytes of its
  body.
\<close>

datatype fetch_outcome = FetchThrows | FetchResponse nat headers string

text \<open>
  What \<open>R2_BUCKET.put\<close> does: it stores the object; or it throws before it has read the
  body; or it throws after it has read the body. The bucket never keeps part of an object.
\<close>

datatype put_behaviour = PutSucceeds | PutRejects | PutAborts

text \<open>
  \<open>CONFIG\<close> as \<open>initializeConfig\<close> leaves it (the two patterns are predicates on the
  hostname), and the behaviour of the collaborators during the request: the answers of
  the network, of the bucket and of the queue, the ETag the bucket gives to a content, and
  the clock (the current instant as \<open>toISOString\<close> and \<open>toUTCString\<close> print it,
  \<open>Date.now()\<close>, and the \<open>toUTCString\<close> of a stored instant).
\<close>

record env =
  READ_HOSTNAME_PATTERN :: "string \<Rightarrow> bool"
  WRITE_HOSTNAME_PATTERN :: "string \<Rightarrow> bool"
  SOURCE_endpoint :: string
  SOURCE_bucketName :: string
  net_fetch :: "string \<Rightarrow> fetch_outcome"
  put_behaviour :: put_behaviour
  delete_fails :: bool
  send_fails :: bool
  etag_text :: "string \<Rightarrow> string"
  clock_iso :: string
  clock_utc :: string
  now_ms :: string
  utc_text :: "string \<Rightarrow> string"

text \<open>\<open>CONFIG.DEFAULT_CACHE_CONTROL\<close> (line 11), which \<open>initializeConfig\<close> never changes.\<close>

definition DEFAULT_CACHE_CONTROL :: string where
  "DEFAULT_CACHE_CONTROL = ''public, max-age=86400''"

text \<open>
  The dates that the platform prints and the ETags of the bucket are header values: they
  have no NUL, LF or CR and no whitespace at their ends. \<open>header_text\<close> makes any string
  of the environment such a value, and leaves a header value as it is.
\<close>

definition header_text :: "string \<Rightarrow> string" where
  "header_text s = normalize_value (filter (\<lambda>c. \<not> forbidden_byte c) s)"

definition now_iso :: "env \<Rightarrow> string" where
  "now_iso e = header_text (clock_iso e)"

definition now_utc :: "env \<Rightarrow> string" where
  "now_utc e = header_text (clock_utc e)"

definition utc_of :: "env \<Rightarrow> string \<Rightarrow> string" where
  "utc_of e t = header_text (utc_text e t)"

definition etag_of :: "env \<Rightarrow> string \<Rightarrow> string" where
  "etag_of e bs = header_text (etag_text e bs)"

subsection \<open>The platform\<close>

text \<open>
  \<open>headers.set(name, value)\<close>; \<open>set_header\<close> is the same after statements that may have
  thrown, and \<open>fill_headers\<close> is what \<open>new Response\<close> does with the plain object given as
  its \<open>headers\<close>.
\<close>

definition headers_set :: "string \<Rightarrow> string \<Rightarrow> headers \<Rightarrow> error + headers" where
  "headers_set name v hs =
     (if \<not> valid_header_name name then Inl (PlatformError ''Invalid header name'')
      else if \<not> valid_header_value v then Inl (PlatformError ''Invalid header value'')
      else Inr (obj_set (toLowerCase name) (normalize_value v) hs))"

definition set_header :: "string \<Rightarrow> string \<Rightarrow> error + headers \<Rightarrow> error + headers" where
  "set_header name v r = (case r of Inl err \<Rightarrow> Inl err | Inr hs \<Rightarrow> headers_set name v hs)"

definition fill_headers :: "(string \<times> string) list \<Rightarrow> error + headers" where
  "fill_headers init = foldl (\<lambda>r (name, v). set_header name v r) (Inr []) init"

text \<open>
  The \<open>Headers\<close> object of a response received from the network: the platform keeps the
  fields that are well formed, with their values normalised.
\<close>

definition received :: "headers \<Rightarrow> headers" where
  "received fs =
     map (\<lambda>(name, v). (name, normalize_value v))
       (filter (\<lambda>(name, v). valid_header_name name \<and> valid_header_value v) fs)"

text \<open>
  \<open>response.body\<close>: \<open>null\<close> for a response without content (204 and 205, which carry no
  bytes), a stream otherwise.
\<close>

definition null_body :: "nat \<Rightarrow> string \<Rightarrow> bool" where
  "null_body st bs = ((st = 204 \<or> st = 205) \<and> bs = [])"

definition log_call :: "call \<Rightarrow> world \<Rightarrow> world" where
  "log_call c w = w\<lparr>trace := trace w @ [c]\<rparr>"

definition stream_at :: "world \<Rightarrow> addr \<Rightarrow> stream option" where
  "stream_at w a = (if a < length (streams w) then Some (streams w ! a) else None)"

definition new_stream :: "string \<Rightarrow> world \<Rightarrow> addr \<times> world" where
  "new_stream bs w =
     (length (streams w), w\<lparr>streams := streams w @ [\<lparr>bytes = bs, disturbed = False\<rparr>]\<rparr>)"

definition usable :: "world \<Rightarrow> addr \<Rightarrow> bool" where
  "usable w a = (case stream_at w a of None \<Rightarrow> False | Some s \<Rightarrow> \<not> disturbed s)"

definition disturb :: "addr \<Rightarrow> world \<Rightarrow> world" where
  "disturb a w = w\<lparr>streams := (streams w)[a := (streams w ! a)\<lparr>disturbed := True\<rparr>]\<rparr>"

text \<open>\<open>new Response(body, {status, headers})\<close>.\<close>

definition new_Response :: "body_init \<Rightarrow> nat \<Rightarrow> headers \<Rightarrow> world \<Rightarrow> error + response" where
  "new_Response b st hs w =
     (case b of
        BodyStream a \<Rightarrow>
          if usable w a then Inr \<lparr>resp_status = st, resp_headers = hs, resp_body = b\<rparr>
          else Inl (PlatformError ''This ReadableStream is disturbed'')
      | _ \<Rightarrow> Inr \<lparr>resp_status = st, resp_headers = hs, resp_body = b\<rparr>)"


text \<open>\<open>R2_BUCKET.get(key)\<close>: \<open>null\<close>, or the object with a fresh stream of its bytes.\<close>

definition object_of_stored :: "stored \<Rightarrow> addr \<Rightarrow> r2_object" where
  "object_of_stored so a =
     \<lparr>body = Some a, httpEtag = Some (s_etag so),
      httpMetadata = Some \<lparr>contentType = s_contentType so, contentLength = None,
                            cacheControl = s_cacheControl so\<rparr>,
      customMetadata = Some (s_customMetadata so),
      uploaded = Some (s_uploaded so)\<rparr>"

definition R2_get :: "string \<Rightarrow> world \<Rightarrow> r2_object option \<times> world" where
  "R2_get k w =
     (let w1 = log_call (R2Get k) w in
      case bucket w1 k of
        None \<Rightarrow> (None, w1)
      | Some so \<Rightarrow>
          (let (a, w2) = new_stream (s_data so) w1 in (Some (object_of_stored so a), w2)))"

text \<open>
  \<open>R2_BUCKET.put(key, value, {httpMetadata, customMetadata})\<close>. The bucket keeps the
  content type, the cache control and the custom metadata, and gives the object its ETag
  and upload time. A \<open>null\<close> value stores the empty object.
\<close>

definition R2_put ::
  "env \<Rightarrow> string \<Rightarrow> addr option \<Rightarrow> http_metadata option \<Rightarrow> (string \<times> string) list \<Rightarrow> world
     \<Rightarrow> (error + stored) \<times> world" where
  "R2_put e k v hm cm w =
     (let w1 = log_call (R2Put k v) w in
      if (case v of None \<Rightarrow> False | Some a \<Rightarrow> \<not> usable w1 a) then
        (Inl (PlatformError ''This ReadableStream is disturbed''), w1)
      else
        (case put_behaviour e of
           PutRejects \<Rightarrow> (Inl (PlatformError ''put failed''), w1)
         | PutAborts \<Rightarrow>
             (Inl (PlatformError ''put failed''),
              (case v of None \<Rightarrow> w1 | Some a \<Rightarrow> disturb a w1))
         | PutSucceeds \<Rightarrow>
             (let bs = (case v of None \<Rightarrow> [] | Some a \<Rightarrow> bytes (streams w1 ! a));
                  w2 = (case v of None \<Rightarrow> w1 | Some a \<Rightarrow> disturb a w1);
                  so = \<lparr>s_data = bs,
                        s_contentType = (case hm of None \<Rightarrow> None | Some m \<Rightarrow> contentType m),
                        s_cacheControl = (case hm of None \<Rightarrow> None | Some m \<Rightarrow> cacheControl m),
                        s_customMetadata = cm,
                        s_etag = etag_of e bs,
                        s_uploaded = now_iso e\<rparr>
              in (Inr so, w2\<lparr>bucket := (bucket w2)(k \<mapsto> so)\<rparr>))))"

text \<open>\<open>R2_BUCKET.delete(key)\<close>: deleting an absent key is not an error.\<close>

definition R2_delete :: "env \<Rightarrow> string \<Rightarrow> world \<Rightarrow> (error + unit) \<times> world" where
  "R2_delete e k w =
     (let w1 = log_call (R2Delete k) w in
      if delete_fails e then (Inl (PlatformError ''delete failed''), w1)
      else (Inr (), w1\<lparr>bucket := (bucket w1)(k := None)\<rparr>))"

text \<open>\<open>SYNC_QUEUE.send(message)\<close>.\<close>

definition SYNC_QUEUE_send :: "env \<Rightarrow> sync_event \<Rightarrow> world \<Rightarrow> (error + unit) \<times> world" where
  "SYNC_QUEUE_send e ev w =
     (let w1 = log_call (QueueSend ev) w in
      if send_fails e then (Inl (PlatformError ''send failed''), w1)
      else (Inr (), w1\<lparr>queue := queue w1 @ [ev]\<rparr>))"

subsection \<open>The worker\<close>

text \<open>
  \<open>validateAuth\<close> (lines 117-135). The check is on the hostname's classification, not on
  the method.
\<close>

definition validateAuth :: "request \<Rightarrow> bool \<Rightarrow> string \<Rightarrow> error + bool" where
  "validateAuth req isWriteOperation objectKey =
     (if isWriteOperation then
        (let authHeader = headers_get (req_headers req) ''Authorization'' in
         if \<not> truthy authHeader then
           Inl (StorageError ''Authentication required'' 401 ''AccessDenied'')
         else Inr True)
      else Inr True)"

text \<open>\<open>queueSyncTask\<close> (lines 343-355): a failed \<open>send\<close> is logged and answered by false.\<close>

definition queueSyncTask :: "env \<Rightarrow> string \<Rightarrow> action \<Rightarrow> world \<Rightarrow> bool \<times> world" where
  "queueSyncTask e objectKey act w =
     (case SYNC_QUEUE_send e
             \<lparr>ev_key = objectKey, ev_action = act, ev_timestamp = now_iso e\<rparr> w of
        (Inr _, w1) \<Rightarrow> (True, w1)
      | (Inl _, w1) \<Rightarrow> (False, w1))"

text \<open>
  \<open>fetchFromSourceStorage\<close> (lines 270-318). A response that is not ok has its body read
  for the log line only; an exception is logged. Both give \<open>null\<close>. The object of an ok
  response has the body of the response, a stream or \<open>null\<close>.
\<close>

definition response_ok :: "nat \<Rightarrow> bool" where
  "response_ok st = (200 \<le> st \<and> st \<le> 299)"

definition sourceUrl :: "env \<Rightarrow> string \<Rightarrow> string" where
  "sourceUrl e objectKey = SOURCE_endpoint e @ ''/'' @ SOURCE_bucketName e @ ''/'' @ objectKey"

text \<open>
  The "simulated R2 object" (lines 302-313) of a response with the \<open>Headers\<close> object
  \<open>hs\<close> and the body \<open>b\<close>.
\<close>

definition simulated_object :: "headers \<Rightarrow> addr option \<Rightarrow> r2_object" where
  "simulated_object hs b =
     \<lparr>body = b, httpEtag = headers_get hs ''ETag'',
      httpMetadata = Some \<lparr>contentType = headers_get hs ''Content-Type'',
                            contentLength = headers_get hs ''Content-Length'',
                            cacheControl = headers_get hs ''Cache-Control''\<rparr>,
      customMetadata = Some [(''source'', ''lazy-loaded'')],
      uploaded = None\<rparr>"

definition fetchFromSourceStorage :: "env \<Rightarrow> string \<Rightarrow> world \<Rightarrow> r2_object option \<times> world" where
  "fetchFromSourceStorage e objectKey w =
     (if SOURCE_endpoint e = [] then (None, w)
      else
        (let w1 = log_call (OriginFetch (sourceUrl e objectKey)) w in
         case net_fetch e (sourceUrl e objectKey) of
           FetchThrows \<Rightarrow> (None, w1)
         | FetchResponse st hs bs \<Rightarrow>
             if \<not> response_ok st then (None, w1)
             else if null_body st bs then (Some (simulated_object (received hs) None), w1)
             else (let (a, w2) = new_stream bs w1
                   in (Some (simulated_object (received hs) (Some a)), w2))))"

text \<open>
  \<open>storeObjectInR2\<close> (lines 323-338): \<open>put\<close> is given \<open>object.body\<close> itself; a failed
  \<open>put\<close> is logged and answered by false.
\<close>

definition storeObjectInR2 :: "env \<Rightarrow> r2_object \<Rightarrow> string \<Rightarrow> world \<Rightarrow> bool \<times> world" where
  "storeObjectInR2 e object objectKey w =
     (case R2_put e objectKey (body object) (httpMetadata object)
             (obj_set ''lazyLoadedAt'' (now_iso e)
               (obj_set ''lazyLoaded'' ''true''
                 (case customMetadata object of None \<Rightarrow> [] | Some cm \<Rightarrow> cm))) w of
        (Inr _, w1) \<Rightarrow> (True, w1)
      | (Inl _, w1) \<Rightarrow> (False, w1))"

text \<open>
  \<open>getResponseHeaders\<close> (lines 360-385). Each \<open>headers.set\<close> may throw, and the first
  that does ends the function: a custom metadata key that is not a token does, and so does
  a value that is not a header value.
\<close>

definition set_custom_headers ::
  "(string \<times> string) list \<Rightarrow> error + headers \<Rightarrow> error + headers" where
  "set_custom_headers cm r = foldl (\<lambda>h (k, v). set_header (''x-amz-meta-'' @ k) v h) r cm"

definition getResponseHeaders :: "env \<Rightarrow> r2_object \<Rightarrow> error + headers" where
  "getResponseHeaders e object =
     (let hm = httpMetadata object;
          ct = (case hm of None \<Rightarrow> None | Some m \<Rightarrow> contentType m);
          cl = (case hm of None \<Rightarrow> None | Some m \<Rightarrow> contentLength m);
          cc = (case hm of None \<Rightarrow> None | Some m \<Rightarrow> cacheControl m);
          h1 = headers_set ''Content-Type'' (or_default ct ''application/octet-stream'') [];
          h2 = (if truthy cl then set_header ''Content-Length'' (or_default cl []) h1 else h1);
          h3 = (if truthy (httpEtag object)
                then set_header ''ETag'' (or_default (httpEtag object) []) h2 else h2);
          h4 = set_header ''Cache-Control'' (or_default cc DEFAULT_CACHE_CONTROL) h3;
          h5 = set_header ''Last-Modified''
                 (case uploaded object of
                    None \<Rightarrow> now_utc e
                  | Some u \<Rightarrow> if u = [] then now_utc e else utc_of e u) h4;
          h6 = (case customMetadata object of None \<Rightarrow> h5 | Some cm \<Rightarrow> set_custom_headers cm h5)
      in set_header ''Access-Control-Allow-Origin'' ''*'' h6)"

text \<open>
  \<open>handleGetRequest\<close> (lines 140-178); \<open>lazy_load\<close> is the body of its first
  conditional (lines 151-159). The response to a GET is built on \<open>object.body\<close>, the
  stream that \<open>storeObjectInR2\<close> has given to \<open>put\<close>. The headers are computed before
  the constructor runs.
\<close>

definition body_init_of :: "addr option \<Rightarrow> body_init" where
  "body_init_of b = (case b of None \<Rightarrow> BodyNull | Some a \<Rightarrow> BodyStream a)"

definition lazy_load :: "env \<Rightarrow> string \<Rightarrow> world \<Rightarrow> r2_object option \<times> world" where
  "lazy_load e objectKey w =
     (case fetchFromSourceStorage e objectKey w of
        (None, w1) \<Rightarrow> (None, w1)
      | (Some object, w1) \<Rightarrow>
          (let (stored_ok, w2) = storeObjectInR2 e object objectKey w1;
               (queued_ok, w3) = queueSyncTask e objectKey LAZY_LOADED w2
           in (Some object, w3)))"

definition handleGetRequest ::
  "env \<Rightarrow> request \<Rightarrow> string \<Rightarrow> world \<Rightarrow> (error + response) \<times> world" where
  "handleGetRequest e req objectKey w =
     (if objectKey = [] then
        (Inl (StorageError ''Bucket listing not implemented'' 501 ''NotImplemented''), w)
      else
        (let (local, w1) = R2_get objectKey w;
             (object, w2) =
               (if local = None \<and> SOURCE_endpoint e \<noteq> [] then lazy_load e objectKey w1
                else (local, w1))
         in case object of
              None \<Rightarrow> (Inl (StorageError ''Object not found'' 404 ''NoSuchKey''), w2)
            | Some obj \<Rightarrow>
                if req_method req = ''HEAD'' then
                  (case getResponseHeaders e obj of
                     Inl err \<Rightarrow> (Inl err, w2)
                   | Inr hs \<Rightarrow> (new_Response BodyNull 200 hs w2, w2))
                else
                  (case getResponseHeaders e obj of
                     Inl err \<Rightarrow> (Inl err, w2)
                   | Inr hs \<Rightarrow> (new_Response (body_init_of (body obj)) 200 hs w2, w2))))"

text \<open>
  \<open>handlePutRequest\<close> (lines 183-226). The \<open>try\<close> holds the \<open>put\<close>, the message and
  the construction of the response: whatever throws there gives "Upload failed".
\<close>

definition put_metadata :: "headers \<Rightarrow> (string \<times> string) list" where
  "put_metadata hs =
     foldl (\<lambda>m (k, v). if startsWith (toLowerCase k) ''x-amz-meta-''
                        then obj_set (substring k 11) v m else m) [] hs"

definition handlePutRequest ::
  "env \<Rightarrow> request \<Rightarrow> string \<Rightarrow> world \<Rightarrow> (error + response) \<times> world" where
  "handlePutRequest e req objectKey w =
     (if objectKey = [] then (Inl (StorageError ''Invalid object key'' 400 ''InvalidKey''), w)
      else
        (let contentType = or_default (headers_get (req_headers req) ''Content-Type'')
                             ''application/octet-stream'';
             cacheControl = or_default (headers_get (req_headers req) ''Cache-Control'')
                              DEFAULT_CACHE_CONTROL;
             metadata = put_metadata (req_headers req)
         in case R2_put e objectKey (req_body req)
                  (Some \<lparr>contentType = Some contentType, contentLength = None,
                          cacheControl = Some cacheControl\<rparr>) metadata w of
              (Inl err, w1) \<Rightarrow> (Inl (StorageError ''Upload failed'' 500 ''InternalError''), w1)
            | (Inr object, w1) \<Rightarrow>
                (let (queued_ok, w2) = queueSyncTask e objectKey UPLOADED w1
                 in case fill_headers [(''ETag'', s_etag object),
                                       (''Content-Type'', ''application/xml'')] of
                      Inl err \<Rightarrow>
                        (Inl (StorageError ''Upload failed'' 500 ''InternalError''), w2)
                    | Inr hs \<Rightarrow>
                        (case new_Response BodyNull 200 hs w2 of
                           Inl err \<Rightarrow>
                             (Inl (StorageError ''Upload failed'' 500 ''InternalError''), w2)
                         | Inr resp \<Rightarrow> (Inr resp, w2)))))"

text \<open>\<open>handleDeleteRequest\<close> (lines 231-251).\<close>

definition handleDeleteRequest ::
  "env \<Rightarrow> request \<Rightarrow> string \<Rightarrow> world \<Rightarrow> (error + response) \<times> world" where
  "handleDeleteRequest e req objectKey w =
     (if objectKey = [] then (Inl (StorageError ''Invalid object key'' 400 ''InvalidKey''), w)
      else
        (case R2_delete e objectKey w of
           (Inl err, w1) \<Rightarrow> (Inl (StorageError ''Delete failed'' 500 ''InternalError''), w1)
         | (Inr u, w1) \<Rightarrow>
             (let (queued_ok, w2) = queueSyncTask e objectKey DELETED w1
              in (new_Response BodyNull 204 [] w2, w2))))"

text \<open>\<open>handleOptionsRequest\<close> (lines 256-265).\<close>

definition handleOptionsRequest :: "request \<Rightarrow> world \<Rightarrow> error + response" where
  "handleOptionsRequest req w =
     (case fill_headers
             [(''Access-Control-Allow-Origin'', ''*''),
              (''Access-Control-Allow-Methods'', ''GET, PUT, DELETE, HEAD, OPTIONS''),
              (''Access-Control-Allow-Headers'',
               ''Content-Type, Authorization, X-Amz-Date, X-Amz-Content-Sha256, Content-MD5''),
              (''Access-Control-Max-Age'', ''86400'')] of
        Inl err \<Rightarrow> Inl err
      | Inr hs \<Rightarrow> new_Response BodyNull 200 hs w)"

text \<open>
  \<open>formatErrorResponse\<close> (lines 390-408). Its one header, \<open>Content-Type:
  application/xml\<close>, is a constant that the constructor accepts.
\<close>

definition error_status :: "error \<Rightarrow> nat" where
  "error_status err =
     (case err of StorageError m st c \<Rightarrow> (if st = 0 then 500 else st) | PlatformError m \<Rightarrow> 500)"

definition error_code :: "error \<Rightarrow> string" where
  "error_code err =
     (case err of
        StorageError m st c \<Rightarrow> (if c = [] then ''InternalError'' else c)
      | PlatformError m \<Rightarrow> ''InternalError'')"

definition error_message :: "error \<Rightarrow> string" where
  "error_message err =
     (let m = (case err of StorageError m st c \<Rightarrow> m | PlatformError m \<Rightarrow> m)
      in if m = [] then ''Internal Server Error'' else m)"

definition formatErrorResponse :: "env \<Rightarrow> error \<Rightarrow> response" where
  "formatErrorResponse e err =
     \<lparr>resp_status = error_status err,
      resp_headers = [(''content-type'', ''application/xml'')],
      resp_body = BodyText
        (''<?xml version=\"1.0\" encoding=\"UTF-8\"?>'' @ [CHR 0x0A] @
         ''<Error>'' @ [CHR 0x0A] @
         ''  <Code>'' @ error_code err @ ''</Code>'' @ [CHR 0x0A] @
         ''  <Message>'' @ error_message err @ ''</Message>'' @ [CHR 0x0A] @
         ''  <RequestId>worker-'' @ now_ms e @ ''</RequestId>'' @ [CHR 0x0A] @
         ''</Error>'')\<rparr>"

text \<open>
  The object key (lines 58-59): the path split at \<open>/\<close>, without its empty parts, joined
  again.
\<close>

fun split_slash :: "string \<Rightarrow> string list" where
  "split_slash [] = [[]]"
| "split_slash (c # cs) =
     (if c = CHR ''/'' then [] # split_slash cs
      else (case split_slash cs of [] \<Rightarrow> [[c]] | p # ps \<Rightarrow> (c # p) # ps))"

fun join_slash :: "string list \<Rightarrow> string" where
  "join_slash [] = []"
| "join_slash [p] = p"
| "join_slash (p # q # ps) = p @ ''/'' @ join_slash (q # ps)"

definition objectKey_of :: "string \<Rightarrow> string" where
  "objectKey_of pathname = join_slash (filter (\<lambda>p. p \<noteq> []) (split_slash pathname))"

text \<open>
  \<open>fetch\<close> (lines 43-86): \<open>fetch_try\<close> is the body of its \<open>try\<close>, and \<open>fetch\<close> renders a
  thrown error with \<open>formatErrorResponse\<close>. \<open>isReadOperation\<close> (line 55) is never used.
\<close>

definition fetch_try :: "env \<Rightarrow> request \<Rightarrow> world \<Rightarrow> (error + response) \<times> world" where
  "fetch_try e req w =
     (let method = req_method req;
          hostname = req_hostname req;
          isWriteOperation = WRITE_HOSTNAME_PATTERN e hostname;
          objectKey = objectKey_of (req_pathname req)
      in case validateAuth req isWriteOperation objectKey of
           Inl err \<Rightarrow> (Inl err, w)
         | Inr ok \<Rightarrow>
             if method = ''GET'' \<or> method = ''HEAD'' then handleGetRequest e req objectKey w
             else if method = ''PUT'' then
               (if \<not> isWriteOperation then
                  (Inl (StorageError ''Write operations not allowed on this endpoint'' 403
                          ''AccessDenied''), w)
                else handlePutRequest e req objectKey w)
             else if method = ''DELETE'' then
               (if \<not> isWriteOperation then
                  (Inl (StorageError ''Delete operations not allowed on this endpoint'' 403
                          ''AccessDenied''), w)
                else handleDeleteRequest e req objectKey w)
             else if method = ''OPTIONS'' then (handleOptionsRequest req w, w)
             else (Inl (StorageError (''Method '' @ method @ '' not supported'') 405
                          ''MethodNotAllowed''), w))"

definition fetch :: "env \<Rightarrow> request \<Rightarrow> world \<Rightarrow> response \<times> world" where
  "fetch e req w =
     (case fetch_try e req w of
        (Inl err, w1) \<Rightarrow> (formatErrorResponse e err, w1)
      | (Inr resp, w1) \<Rightarrow> (resp, w1))"

subsection \<open>Notions used by the properties\<close>

text \<open>
  The origin fails for a key: the request to the source storage throws, or its response
  is not ok.
\<close>

definition origin_fails :: "env \<Rightarrow> string \<Rightarrow> bool" where
  "origin_fails e k =
     (case net_fetch e (sourceUrl e k) of
        FetchThrows \<Rightarrow> True
      | FetchResponse st hs bs \<Rightarrow> \<not> response_ok st)"

text \<open>The access guard lets a request through (\<open>validateAuth\<close> returns).\<close>

definition passes_guard :: "env \<Rightarrow> request \<Rightarrow> bool" where
  "passes_guard e req =
     (WRITE_HOSTNAME_PATTERN e (req_hostname req)
        \<longrightarrow> truthy (headers_get (req_headers req) ''Authorization''))"


text \<open>
  The value of \<open>Last-Modified\<close> (line 372): the \<open>toUTCString\<close> of the upload time, or
  of the current instant for an object without one.
\<close>

definition last_modified :: "env \<Rightarrow> string option \<Rightarrow> string" where
  "last_modified e up =
     (case up of None \<Rightarrow> now_utc e | Some u \<Rightarrow> if u = [] then now_utc e else utc_of e u)"

text \<open>Writes to the bucket and messages to the queue, among the calls of a trace.\<close>

definition is_put :: "call \<Rightarrow> bool" where
  "is_put c = (case c of R2Put k v \<Rightarrow> True | _ \<Rightarrow> False)"

definition is_send :: "call \<Rightarrow> bool" where
  "is_send c = (case c of QueueSend ev \<Rightarrow> True | _ \<Rightarrow> False)"

subsection \<open>A deployment to run the worker on\<close>

text \<open>
  The default configuration (host names starting with \<open>read-\<close> and \<open>write-\<close>), a source
  storage that holds \<open>images/logo.png\<close> only, and the behaviour of the bucket and of the
  queue as parameters. The clock stands at 2024-01-01T00:00:00.000Z, a Monday; the objects
  of the bucket were uploaded on 2023-12-31, a Sunday.
\<close>

definition demo_env :: "put_behaviour \<Rightarrow> bool \<Rightarrow> bool \<Rightarrow> env" where
  "demo_env pb df sf =
     \<lparr>READ_HOSTNAME_PATTERN = (\<lambda>h. startsWith h ''read-''),
      WRITE_HOSTNAME_PATTERN = (\<lambda>h. startsWith h ''write-''),
      SOURCE_endpoint = ''https://origin.example'',
      SOURCE_bucketName = ''assets'',
      net_fetch = (\<lambda>u. if u = ''https://origin.example/assets/images/logo.png''
                       then FetchResponse 200
                              [(''content-type'', ''image/png''), (''etag'', ''\"abc\"'')] ''PNG''
                       else FetchResponse 404 [] []),
      put_behaviour = pb, delete_fails = df, send_fails = sf,
      etag_text = (\<lambda>bs. ''\"r2\"''),
      clock_iso = ''2024-01-01T00:00:00.000Z'',
      clock_utc = ''Mon, 01 Jan 2024 00:00:00 GMT'',
      now_ms = ''1704067200000'',
      utc_text = (\<lambda>t. if t = ''2023-12-31T00:00:00.000Z''
                        then ''Sun, 31 Dec 2023 00:00:00 GMT''
                        else ''Mon, 01 Jan 2024 00:00:00 GMT'')\<rparr>"

definition empty_world :: world where
  "empty_world = \<lparr>bucket = Map.empty, streams = [], queue = [], trace = []\<rparr>"

definition logo :: stored where
  "logo = \<lparr>s_data = ''PNG'', s_contentType = Some ''image/png'', s_cacheControl = None,
           s_customMetadata = [], s_etag = ''\"r2\"'', s_uploaded = ''2023-12-31T00:00:00.000Z''\<rparr>"

definition stocked_world :: world where
  "stocked_world =
     \<lparr>bucket = [''images/logo.png'' \<mapsto> logo], streams = [], queue = [], trace = []\<rparr>"

text \<open>
  Two more objects: one with custom metadata, and one whose custom metadata key is not a
  header token (the bucket accepts any key).
\<close>

definition tagged_logo :: stored where
  "tagged_logo = logo\<lparr>s_customMetadata := [(''Owner'', ''design team'')]\<rparr>"

definition odd_logo :: stored where
  "odd_logo = logo\<lparr>s_customMetadata := [(''bad key'', ''v'')]\<rparr>"

definition demo_world :: "stored \<Rightarrow> world" where
  "demo_world so =
     \<lparr>bucket = [''images/logo.png'' \<mapsto> so], streams = [], queue = [], trace = []\<rparr>"

definition demo_request :: "string \<Rightarrow> string \<Rightarrow> string \<Rightarrow> headers \<Rightarrow> request" where
  "demo_request m h p hs =
     \<lparr>req_method = m, req_hostname = h, req_pathname = p, req_headers = hs, req_body = None\<rparr>"

section \<open>Header names and values\<close>

lemma log_call_simps [simp]:
  "bucket (log_call c w) = bucket w" "streams (log_call c w) = streams w"
  "queue (log_call c w) = queue w" "trace (log_call c w) = trace w @ [c]"
  by (simp_all add: log_call_def)

lemma clock_send_fails [simp]:
  "now_iso (e\<lparr>send_fails := sf\<rparr>) = now_iso e" "now_utc (e\<lparr>send_fails := sf\<rparr>) = now_utc e"
  "utc_of (e\<lparr>send_fails := sf\<rparr>) = utc_of e" "etag_of (e\<lparr>send_fails := sf\<rparr>) = etag_of e"
  by (simp_all add: now_iso_def now_utc_def utc_of_def etag_of_def fun_eq_iff)

text \<open>Header values.\<close>

lemma dropWhile_fixed: "xs = [] \<or> \<not> P (hd xs) \<Longrightarrow> dropWhile P xs = xs"
  by (cases xs) auto

lemma normalize_value_idem [simp]: "normalize_value (normalize_value v) = normalize_value v"
proof -
  let ?P = http_whitespace
  let ?a = "dropWhile ?P v"
  let ?b = "dropWhile ?P (rev ?a)"
  have n: "normalize_value v = rev ?b" by (simp add: normalize_value_def)
  have tl_ok: "dropWhile ?P (rev (rev ?b)) = ?b" by simp
  have hd_ok: "dropWhile ?P (rev ?b) = rev ?b"
  proof (cases "?a = []")
    case True
    show ?thesis unfolding True by simp
  next
    case False
    then have h: "\<not> ?P (hd ?a)" by (rule hd_dropWhile)
    have l: "last (rev ?a) = hd ?a" using False by (simp add: last_rev)
    have ne: "?b \<noteq> []"
    proof
      assume "?b = []"
      then have "\<forall>x \<in> set (rev ?a). ?P x" by (simp add: dropWhile_eq_Nil_conv)
      moreover have "hd ?a \<in> set (rev ?a)" using False by simp
      ultimately show False using h by blast
    qed
    have "rev ?a = takeWhile ?P (rev ?a) @ ?b" by simp
    then have "last (rev ?a) = last ?b" using ne by (metis last_appendR)
    then have "hd (rev ?b) = hd ?a" using l ne by (simp add: hd_rev)
    then show ?thesis using h by (intro dropWhile_fixed) simp
  qed
  show ?thesis unfolding n normalize_value_def using hd_ok tl_ok by simp
qed

lemma set_normalize_value: "set (normalize_value v) \<subseteq> set v"
  unfolding normalize_value_def
  by (metis set_rev set_dropWhileD subsetI)

lemma header_text_normal [simp]: "normalize_value (header_text s) = header_text s"
  by (simp add: header_text_def)

lemma header_text_valid [simp]: "valid_header_value (header_text s)"
proof -
  have "set (header_text s) \<subseteq> set (filter (\<lambda>c. \<not> forbidden_byte c) s)"
    unfolding header_text_def by (rule set_normalize_value)
  then show ?thesis
    by (auto simp add: valid_header_value_def list_all_iff)
qed

lemma clock_valid [simp]:
  "valid_header_value (now_iso e)" "valid_header_value (now_utc e)"
  "valid_header_value (utc_of e t)" "valid_header_value (etag_of e bs)"
  "normalize_value (now_iso e) = now_iso e" "normalize_value (now_utc e) = now_utc e"
  "normalize_value (utc_of e t) = utc_of e t" "normalize_value (etag_of e bs) = etag_of e bs"
  by (simp_all add: now_iso_def now_utc_def utc_of_def etag_of_def)





lemma set_header_Inl [simp]: "set_header n v (Inl err) = Inl err"
  by (simp add: set_header_def)





lemma valid_name_literals [simp]:
  "valid_header_name ''Content-Type''" "valid_header_name ''Content-Length''"
  "valid_header_name ''ETag''" "valid_header_name ''Cache-Control''"
  "valid_header_name ''Last-Modified''" "valid_header_name ''Access-Control-Allow-Origin''"
  by (simp_all add: valid_header_name_def tchar_def)

lemma valid_star [simp]: "valid_header_value ''*''" "normalize_value ''*'' = ''*''"
  by (simp_all add: valid_header_value_def normalize_value_def http_whitespace_def
      forbidden_byte_def)

lemma set_custom_Inl [simp]: "set_custom_headers cm (Inl err) = Inl err"
  by (induction cm) (auto simp add: set_custom_headers_def)

lemma set_custom_Cons:
  "set_custom_headers ((k, v) # cm) r =
     set_custom_headers cm (set_header (''x-amz-meta-'' @ k) v r)"
  by (simp add: set_custom_headers_def)






section \<open>The response headers of an object\<close>

lemma lower_names [simp]:
  "toLowerCase ''Authorization'' = ''authorization''"
  "toLowerCase ''Content-Type'' = ''content-type''"
  "toLowerCase ''Content-Length'' = ''content-length''"
  "toLowerCase ''Cache-Control'' = ''cache-control''"
  "toLowerCase ''ETag'' = ''etag''"
  "toLowerCase ''Last-Modified'' = ''last-modified''"
  "toLowerCase ''Access-Control-Allow-Origin'' = ''access-control-allow-origin''"
  "toLowerCase ''x-amz-meta-source'' = ''x-amz-meta-source''"
  "toLowerCase ''x-amz-meta-lazyLoaded'' = ''x-amz-meta-lazyloaded''"
  "toLowerCase ''x-amz-meta-lazyLoadedAt'' = ''x-amz-meta-lazyloadedat''"
  by (simp_all add: toLowerCase_def lower_char_def)

lemma last_modified_valid [simp]:
  "valid_header_value (last_modified e up)" "normalize_value (last_modified e up) = last_modified e up"
  by (simp_all add: last_modified_def split: option.splits)


lemma valid_empty [simp]: "valid_header_value []" "normalize_value [] = []"
  by (simp_all add: valid_header_value_def normalize_value_def)

lemma or_default_Some [simp]: "or_default (Some x) [] = x"
  by (simp add: or_default_def)

lemma or_default_None [simp]: "or_default None d = d"
  by (simp add: or_default_def)

lemma platform_set_header:
  "\<forall>x. r = Inl x \<longrightarrow> (\<exists>m. x = PlatformError m) \<Longrightarrow>
   \<forall>x. set_header n v r = Inl x \<longrightarrow> (\<exists>m. x = PlatformError m)"
  by (cases r) (auto simp add: set_header_def headers_set_def split: if_splits)



lemma set_header_platform:
  "set_header n v r = Inl err \<Longrightarrow> r = Inl err \<or> (\<exists>m. err = PlatformError m)"
  by (cases r) (auto simp add: set_header_def headers_set_def split: if_splits)

lemma set_custom_platform:
  "set_custom_headers cm r = Inl err \<Longrightarrow> r = Inl err \<or> (\<exists>m. err = PlatformError m)"
proof (induction cm arbitrary: r)
  case Nil
  then show ?case by (simp add: set_custom_headers_def)
next
  case (Cons kv cm)
  obtain k v where kv: "kv = (k, v)" by (cases kv)
  from Cons.prems have "set_custom_headers cm (set_header (''x-amz-meta-'' @ k) v r) = Inl err"
    by (simp add: kv set_custom_Cons)
  from Cons.IH[OF this] show ?case
    using set_header_platform by blast
qed

lemma getResponseHeaders_platform:
  assumes "getResponseHeaders e obj = Inl err"
  shows "\<exists>m. err = PlatformError m"
proof -
  define h1 where "h1 = headers_set ''Content-Type''
      (or_default (case httpMetadata obj of None \<Rightarrow> None | Some m \<Rightarrow> contentType m)
         ''application/octet-stream'') []"
  define h2 where "h2 = (if truthy (case httpMetadata obj of None \<Rightarrow> None | Some m \<Rightarrow> contentLength m)
      then set_header ''Content-Length''
             (or_default (case httpMetadata obj of None \<Rightarrow> None | Some m \<Rightarrow> contentLength m) []) h1
      else h1)"
  define h3 where "h3 = (if truthy (httpEtag obj)
      then set_header ''ETag'' (or_default (httpEtag obj) []) h2 else h2)"
  define h4 where "h4 = set_header ''Cache-Control''
      (or_default (case httpMetadata obj of None \<Rightarrow> None | Some m \<Rightarrow> cacheControl m)
         DEFAULT_CACHE_CONTROL) h3"
  define h5 where "h5 = set_header ''Last-Modified'' (last_modified e (uploaded obj)) h4"
  define h6 where "h6 = (case customMetadata obj of None \<Rightarrow> h5 | Some cm \<Rightarrow> set_custom_headers cm h5)"
  have g: "getResponseHeaders e obj = set_header ''Access-Control-Allow-Origin'' ''*'' h6"
    unfolding getResponseHeaders_def Let_def h1_def h2_def h3_def h4_def h5_def h6_def
      last_modified_def by (rule refl)
  let ?P = "\<lambda>r. \<forall>x. r = Inl x \<longrightarrow> (\<exists>m. x = PlatformError m)"
  have p1: "?P h1" by (auto simp add: h1_def headers_set_def)
  have p2: "?P h2" unfolding h2_def using p1 platform_set_header[OF p1] by (cases "truthy (case httpMetadata obj of None \<Rightarrow> None | Some m \<Rightarrow> contentLength m)") simp_all
  have p3: "?P h3" unfolding h3_def using p2 platform_set_header[OF p2] by (cases "truthy (httpEtag obj)") simp_all
  have p4: "?P h4" unfolding h4_def by (rule platform_set_header[OF p3])
  have p5: "?P h5" unfolding h5_def by (rule platform_set_header[OF p4])
  have p6: "?P h6"
  proof (cases "customMetadata obj")
    case None
    then show ?thesis using p5 by (simp add: h6_def)
  next
    case (Some cm)
    show ?thesis unfolding h6_def Some using p5 set_custom_platform[of cm h5] by auto
  qed
  show ?thesis using assms platform_set_header[OF p6] unfolding g by blast
qed


section \<open>The resolution of a read, path by path\<close>

lemma R2_get_miss: "bucket w k = None \<Longrightarrow> R2_get k w = (None, log_call (R2Get k) w)"
  by (simp add: R2_get_def)


lemma fetch_source_fails:
  "origin_fails e k \<Longrightarrow> SOURCE_endpoint e \<noteq> [] \<Longrightarrow>
   fetchFromSourceStorage e k w = (None, log_call (OriginFetch (sourceUrl e k)) w)"
  by (simp add: fetchFromSourceStorage_def origin_fails_def split: fetch_outcome.splits)

lemma lazy_load_fails:
  "origin_fails e k \<Longrightarrow> SOURCE_endpoint e \<noteq> [] \<Longrightarrow>
   lazy_load e k w = (None, log_call (OriginFetch (sourceUrl e k)) w)"
  by (simp add: lazy_load_def fetch_source_fails)

lemma fetch_source_hit:
  assumes "SOURCE_endpoint e \<noteq> []"
    and "net_fetch e (sourceUrl e k) = FetchResponse st hs bs" and "response_ok st"
  shows "fetchFromSourceStorage e k w =
     (if null_body st bs then
        (Some (simulated_object (received hs) None), log_call (OriginFetch (sourceUrl e k)) w)
      else
        (Some (simulated_object (received hs) (Some (length (streams w)))),
         (log_call (OriginFetch (sourceUrl e k)) w)
           \<lparr>streams := streams w @ [\<lparr>bytes = bs, disturbed = False\<rparr>]\<rparr>))"
  using assms by (simp add: fetchFromSourceStorage_def new_stream_def)

lemma body_simulated [simp]: "body (simulated_object hs b) = b"
  by (simp add: simulated_object_def)

lemma body_object_of_stored [simp]: "body (object_of_stored so a) = Some a"
  by (simp add: object_of_stored_def)

lemma lazy_load_hit:
  assumes "SOURCE_endpoint e \<noteq> []"
    and "net_fetch e (sourceUrl e k) = FetchResponse st hs bs" and "response_ok st"
  shows "fst (lazy_load e k w) =
           Some (simulated_object (received hs)
                  (if null_body st bs then None else Some (length (streams w))))"
   and "trace (snd (lazy_load e k w)) = trace w @
          [OriginFetch (sourceUrl e k),
           R2Put k (if null_body st bs then None else Some (length (streams w))),
           QueueSend \<lparr>ev_key = k, ev_action = LAZY_LOADED, ev_timestamp = now_iso e\<rparr>]"
   and "queue (snd (lazy_load e k w)) = queue w @ (if send_fails e then [] else [\<lparr>ev_key = k, ev_action = LAZY_LOADED, ev_timestamp = now_iso e\<rparr>])"
   and "streams (snd (lazy_load e k w)) =
          (if null_body st bs then streams w
           else streams w @ [\<lparr>bytes = bs, disturbed = (put_behaviour e \<noteq> PutRejects)\<rparr>])"
   and "bucket (snd (lazy_load e k w)) =
         (if put_behaviour e = PutSucceeds then
           (bucket w)(k \<mapsto> \<lparr>s_data = bs, s_contentType = headers_get (received hs) ''Content-Type'',
               s_cacheControl = headers_get (received hs) ''Cache-Control'',
               s_customMetadata = [(''source'', ''lazy-loaded''), (''lazyLoaded'', ''true''), (''lazyLoadedAt'', now_iso e)],
               s_etag = etag_of e bs, s_uploaded = now_iso e\<rparr>)
          else bucket w)"
  using assms
  by (simp_all add: lazy_load_def fetch_source_hit storeObjectInR2_def R2_put_def usable_def stream_at_def
        disturb_def queueSyncTask_def SYNC_QUEUE_send_def Let_def simulated_object_def null_body_def
        split: put_behaviour.splits)


lemma handleGet_miss:
  assumes "k \<noteq> []" and "bucket w k = None" and "origin_fails e k \<or> SOURCE_endpoint e = []"
  shows "handleGetRequest e req k w =
     (Inl (StorageError ''Object not found'' 404 ''NoSuchKey''),
      if SOURCE_endpoint e = [] then log_call (R2Get k) w
      else log_call (OriginFetch (sourceUrl e k)) (log_call (R2Get k) w))"
  using assms
  by (auto simp add: handleGetRequest_def R2_get_miss lazy_load_fails)

lemma handleGet_lazy:
  assumes "k \<noteq> []" and "bucket w k = None" and "SOURCE_endpoint e \<noteq> []"
    and "net_fetch e (sourceUrl e k) = FetchResponse st hs bs" and "response_ok st"
  shows "fst (handleGetRequest e req k w) =
     (case getResponseHeaders e
             (simulated_object (received hs)
               (if null_body st bs then None else Some (length (streams w)))) of
        Inl err \<Rightarrow> Inl err
      | Inr h \<Rightarrow>
          if req_method req = ''HEAD'' \<or> null_body st bs then
            Inr \<lparr>resp_status = 200, resp_headers = h, resp_body = BodyNull\<rparr>
          else if put_behaviour e = PutRejects then
            Inr \<lparr>resp_status = 200, resp_headers = h,
                 resp_body = BodyStream (length (streams w))\<rparr>
          else Inl (PlatformError ''This ReadableStream is disturbed''))"
    and "snd (handleGetRequest e req k w) = snd (lazy_load e k (log_call (R2Get k) w))"
proof -
  let ?w1 = "log_call (R2Get k) w"
  let ?b = "if null_body st bs then None else Some (length (streams w))"
  obtain o3 w3 where ll: "lazy_load e k ?w1 = (o3, w3)" by (cases "lazy_load e k ?w1")
  have o3: "o3 = Some (simulated_object (received hs) ?b)"
    using lazy_load_hit(1)[OF assms(3-5), of ?w1] ll by simp
  have s3: "streams w3 =
          (if null_body st bs then streams w
           else streams w @ [\<lparr>bytes = bs, disturbed = (put_behaviour e \<noteq> PutRejects)\<rparr>])"
    using lazy_load_hit(4)[OF assms(3-5), of ?w1] ll by simp
  show "fst (handleGetRequest e req k w) =
     (case getResponseHeaders e (simulated_object (received hs) ?b) of
        Inl err \<Rightarrow> Inl err
      | Inr h \<Rightarrow>
          if req_method req = ''HEAD'' \<or> null_body st bs then
            Inr \<lparr>resp_status = 200, resp_headers = h, resp_body = BodyNull\<rparr>
          else if put_behaviour e = PutRejects then
            Inr \<lparr>resp_status = 200, resp_headers = h,
                 resp_body = BodyStream (length (streams w))\<rparr>
          else Inl (PlatformError ''This ReadableStream is disturbed''))"
    using assms(1-3) ll o3 s3
    by (simp add: handleGetRequest_def R2_get_miss new_Response_def usable_def stream_at_def
        body_init_of_def split: sum.splits)
  show "snd (handleGetRequest e req k w) = snd (lazy_load e k (log_call (R2Get k) w))"
    using assms(1-3) ll o3
    by (simp add: handleGetRequest_def R2_get_miss split: sum.splits)
qed

lemma getResponseHeaders_send_fails [simp]:
  "getResponseHeaders (e\<lparr>send_fails := sf\<rparr>) obj = getResponseHeaders e obj"
  by (simp add: getResponseHeaders_def Let_def cong: option.case_cong if_cong)

lemma fetch_try_read:
  assumes "req_method req = ''GET'' \<or> req_method req = ''HEAD''"
  shows "fetch_try e req w =
     (if passes_guard e req then handleGetRequest e req (objectKey_of (req_pathname req)) w
      else (Inl (StorageError ''Authentication required'' 401 ''AccessDenied''), w))"
  using assms by (auto simp add: fetch_try_def validateAuth_def passes_guard_def Let_def)

lemma handleGet_errors:
  "fst (handleGetRequest e req k w) = Inl err \<Longrightarrow>
     err = StorageError ''Bucket listing not implemented'' 501 ''NotImplemented''
   \<or> err = StorageError ''Object not found'' 404 ''NoSuchKey''
   \<or> (\<exists>m. err = PlatformError m)"
  using getResponseHeaders_platform
  by (auto simp add: handleGetRequest_def new_Response_def Let_def
      split: if_splits prod.splits option.splits sum.splits body_init.splits)

text \<open>The strings of the deployment are header values.\<close>

lemma demo_texts [simp]:
  "header_text ''2024-01-01T00:00:00.000Z'' = ''2024-01-01T00:00:00.000Z''"
  "header_text ''Mon, 01 Jan 2024 00:00:00 GMT'' = ''Mon, 01 Jan 2024 00:00:00 GMT''"
  "header_text ''Sun, 31 Dec 2023 00:00:00 GMT'' = ''Sun, 31 Dec 2023 00:00:00 GMT''"
  "header_text ''\"r2\"'' = ''\"r2\"''"
  by (simp_all add: header_text_def normalize_value_def http_whitespace_def forbidden_byte_def)

lemmas demo_defs = demo_env_def demo_request_def empty_world_def stocked_world_def logo_def
  demo_world_def tagged_logo_def odd_logo_def now_iso_def now_utc_def utc_of_def etag_of_def

lemmas header_defs = getResponseHeaders_def object_of_stored_def simulated_object_def
  headers_set_def set_header_def fill_headers_def headers_get_def truthy_def or_default_def
  set_custom_headers_def received_def Let_def DEFAULT_CACHE_CONTROL_def
  valid_header_name_def tchar_def valid_header_value_def normalize_value_def
  http_whitespace_def forbidden_byte_def

lemmas worker_defs = fetch_def fetch_try_def validateAuth_def handleGetRequest_def R2_get_def
  lazy_load_def fetchFromSourceStorage_def storeObjectInR2_def R2_put_def queueSyncTask_def
  SYNC_QUEUE_send_def new_Response_def new_stream_def usable_def stream_at_def disturb_def
  log_call_def sourceUrl_def response_ok_def objectKey_of_def startsWith_def
  formatErrorResponse_def error_status_def null_body_def body_init_of_def


lemma valid_defaults [simp]:
  "valid_header_value ''application/octet-stream''" "valid_header_value DEFAULT_CACHE_CONTROL"
  by (simp_all add: valid_header_value_def normalize_value_def http_whitespace_def
      forbidden_byte_def DEFAULT_CACHE_CONTROL_def)





lemma handleOptionsRequest_eval:
  "handleOptionsRequest req w =
     Inr \<lparr>resp_status = 200,
          resp_headers =
            [(''access-control-allow-origin'', ''*''),
             (''access-control-allow-methods'', ''GET, PUT, DELETE, HEAD, OPTIONS''),
             (''access-control-allow-headers'',
              ''Content-Type, Authorization, X-Amz-Date, X-Amz-Content-Sha256, Content-MD5''),
             (''access-control-max-age'', ''86400'')],
          resp_body = BodyNull\<rparr>"
  by (simp add: handleOptionsRequest_def fill_headers_def set_header_def headers_set_def
      new_Response_def valid_header_name_def tchar_def valid_header_value_def normalize_value_def
      http_whitespace_def forbidden_byte_def toLowerCase_def lower_char_def)

section \<open>Reads\<close>




text \<open>
  Claim C4. For a key that the bucket does not hold, a failing origin (the request throws,
  or the response is not ok) gives the error \<open>NoSuchKey\<close> with status 404: nothing is
  written to the bucket and nothing is sent to the queue; the result and the world are
  those of any other failing origin, such as one that answers 404 because it does not hold
  the key either; and the worker's response has status 404.
\<close>

theorem origin_failure_is_a_miss:
  assumes "objectKey \<noteq> []" and "bucket w objectKey = None" and "origin_fails e objectKey"
  shows "(case handleGetRequest e req objectKey w of
            (res, w') \<Rightarrow>
              res = Inl (StorageError ''Object not found'' 404 ''NoSuchKey'')
            \<and> bucket w' = bucket w \<and> queue w' = queue w \<and> streams w' = streams w
            \<and> trace w' = trace w @ R2Get objectKey #
                 (if SOURCE_endpoint e = [] then [] else [OriginFetch (sourceUrl e objectKey)]))
       \<and> (origin_fails (e\<lparr>net_fetch := f\<rparr>) objectKey \<longrightarrow>
            handleGetRequest (e\<lparr>net_fetch := f\<rparr>) req objectKey w
              = handleGetRequest e req objectKey w)
       \<and> ((req_method req = ''GET'' \<or> req_method req = ''HEAD'') \<and> passes_guard e req
            \<and> objectKey_of (req_pathname req) = objectKey \<longrightarrow>
            resp_status (fst (fetch e req w)) = 404)"
proof -
  have a: "handleGetRequest e req objectKey w =
     (Inl (StorageError ''Object not found'' 404 ''NoSuchKey''),
      if SOURCE_endpoint e = [] then log_call (R2Get objectKey) w
      else log_call (OriginFetch (sourceUrl e objectKey)) (log_call (R2Get objectKey) w))"
    using assms by (simp add: handleGet_miss)
  have b: "handleGetRequest (e\<lparr>net_fetch := f\<rparr>) req objectKey w = handleGetRequest e req objectKey w"
    if "origin_fails (e\<lparr>net_fetch := f\<rparr>) objectKey"
    using handleGet_miss[OF assms(1,2), of "e\<lparr>net_fetch := f\<rparr>" req] that a
    by (simp add: sourceUrl_def)
  have c: "resp_status (fst (fetch e req w)) = 404"
    if "req_method req = ''GET'' \<or> req_method req = ''HEAD''" "passes_guard e req"
       "objectKey_of (req_pathname req) = objectKey"
    using that a by (simp add: fetch_def fetch_try_read formatErrorResponse_def error_status_def)
  show ?thesis using a b c by simp
qed

theorem origin_failure_is_a_miss_witness:
  "''images/none.png'' \<noteq> [] \<and> bucket empty_world ''images/none.png'' = None \<and>
   origin_fails (demo_env PutSucceeds False False\<lparr>net_fetch := \<lambda>u. FetchThrows\<rparr>)
     ''images/none.png'' \<and>
   (case handleGetRequest (demo_env PutSucceeds False False\<lparr>net_fetch := \<lambda>u. FetchThrows\<rparr>)
           (demo_request ''GET'' ''read-cdn.example'' ''/images/none.png'' [])
           ''images/none.png'' empty_world of
      (res, w') \<Rightarrow>
        res = Inl (StorageError ''Object not found'' 404 ''NoSuchKey'')
      \<and> bucket w' = bucket empty_world \<and> queue w' = [] \<and> streams w' = []
      \<and> trace w' = [R2Get ''images/none.png'',
                     OriginFetch ''https://origin.example/assets/images/none.png'']) \<and>
   handleGetRequest (demo_env PutSucceeds False False)
       (demo_request ''GET'' ''read-cdn.example'' ''/images/none.png'' [])
       ''images/none.png'' empty_world
     = handleGetRequest (demo_env PutSucceeds False False\<lparr>net_fetch := \<lambda>u. FetchThrows\<rparr>)
         (demo_request ''GET'' ''read-cdn.example'' ''/images/none.png'' [])
         ''images/none.png'' empty_world \<and>
   resp_status (fst (fetch (demo_env PutSucceeds False False\<lparr>net_fetch := \<lambda>u. FetchThrows\<rparr>)
       (demo_request ''GET'' ''read-cdn.example'' ''/images/none.png'' []) empty_world)) = 404"
  using origin_failure_is_a_miss [where objectKey = "''images/none.png''" and w = empty_world
      and e = "demo_env PutSucceeds False False\<lparr>net_fetch := \<lambda>u. FetchThrows\<rparr>"
      and f = "net_fetch (demo_env PutSucceeds False False)"
      and req = "demo_request ''GET'' ''read-cdn.example'' ''/images/none.png'' []"]
  by (simp add: demo_defs origin_fails_def sourceUrl_def response_ok_def passes_guard_def
        startsWith_def objectKey_of_def case_prod_beta)

text \<open>
  Claim C7. A resolution that hits the origin makes four calls: the \<open>get\<close>, the request
  to the source storage, one \<open>put\<close> and one \<open>send\<close> of a \<open>LAZY_LOADED\<close> event, whatever
  the \<open>put\<close> did. The \<open>put\<close> is given the body of the origin's response: the stream just
  opened, or \<open>null\<close> when the response has no content. The queue gains that one event, or
  nothing when the \<open>send\<close> fails, and the result of the resolution is the same whether
  the \<open>send\<close> fails or not.
\<close>

theorem origin_hit_side_effects:
  assumes "objectKey \<noteq> []" and "bucket w objectKey = None" and "SOURCE_endpoint e \<noteq> []"
    and "net_fetch e (sourceUrl e objectKey) = FetchResponse st hs bs" and "response_ok st"
  shows "(case handleGetRequest e req objectKey w of
            (res, w') \<Rightarrow>
              trace w' = trace w @
                [R2Get objectKey, OriginFetch (sourceUrl e objectKey),
                 R2Put objectKey (if null_body st bs then None else Some (length (streams w))),
                 QueueSend \<lparr>ev_key = objectKey, ev_action = LAZY_LOADED,
                            ev_timestamp = now_iso e\<rparr>]
            \<and> length (filter is_put (trace w')) = length (filter is_put (trace w)) + 1
            \<and> length (filter is_send (trace w')) = length (filter is_send (trace w)) + 1
            \<and> queue w' = queue w @
                (if send_fails e then []
                 else [\<lparr>ev_key = objectKey, ev_action = LAZY_LOADED,
                         ev_timestamp = now_iso e\<rparr>]))
       \<and> fst (handleGetRequest (e\<lparr>send_fails := sf\<rparr>) req objectKey w)
           = fst (handleGetRequest e req objectKey w)"
proof -
  obtain res w' where r: "handleGetRequest e req objectKey w = (res, w')"
    by (cases "handleGetRequest e req objectKey w")
  have w': "w' = snd (lazy_load e objectKey (log_call (R2Get objectKey) w))"
    using handleGet_lazy(2)[OF assms, of req] r by simp
  have t: "trace w' = trace w @
                [R2Get objectKey, OriginFetch (sourceUrl e objectKey),
                 R2Put objectKey (if null_body st bs then None else Some (length (streams w))),
                 QueueSend \<lparr>ev_key = objectKey, ev_action = LAZY_LOADED,
                            ev_timestamp = now_iso e\<rparr>]"
    unfolding w' using lazy_load_hit(2)[OF assms(3-5)] by simp
  have q: "queue w' = queue w @
                (if send_fails e then []
                 else [\<lparr>ev_key = objectKey, ev_action = LAZY_LOADED,
                         ev_timestamp = now_iso e\<rparr>])"
    unfolding w' using lazy_load_hit(3)[OF assms(3-5)] by simp
  have s: "fst (handleGetRequest (e\<lparr>send_fails := sf\<rparr>) req objectKey w)
           = fst (handleGetRequest e req objectKey w)"
    using handleGet_lazy(1)[OF assms, of req]
      handleGet_lazy(1)[of objectKey w "e\<lparr>send_fails := sf\<rparr>" st hs bs req] assms
    by (simp add: sourceUrl_def getResponseHeaders_send_fails cong: sum.case_cong if_cong)
  show ?thesis using r t q s by (simp add: is_put_def is_send_def)
qed

theorem origin_hit_side_effects_witness:
  "''images/logo.png'' \<noteq> [] \<and> bucket empty_world ''images/logo.png'' = None \<and>
   SOURCE_endpoint (demo_env PutRejects False True) \<noteq> [] \<and>
   net_fetch (demo_env PutRejects False True)
       (sourceUrl (demo_env PutRejects False True) ''images/logo.png'')
     = FetchResponse 200 [(''content-type'', ''image/png''), (''etag'', ''\"abc\"'')] ''PNG'' \<and>
   response_ok 200 \<and>
   (case handleGetRequest (demo_env PutRejects False True)
           (demo_request ''GET'' ''read-cdn.example'' ''/images/logo.png'' [])
           ''images/logo.png'' empty_world of
      (res, w') \<Rightarrow>
        trace w' =
          [R2Get ''images/logo.png'',
           OriginFetch ''https://origin.example/assets/images/logo.png'',
           R2Put ''images/logo.png'' (Some 0),
           QueueSend \<lparr>ev_key = ''images/logo.png'', ev_action = LAZY_LOADED,
                      ev_timestamp = ''2024-01-01T00:00:00.000Z''\<rparr>]
      \<and> length (filter is_put (trace w')) = 1
      \<and> length (filter is_send (trace w')) = 1
      \<and> queue w' = []) \<and>
   fst (handleGetRequest (demo_env PutRejects False False)
          (demo_request ''GET'' ''read-cdn.example'' ''/images/logo.png'' [])
          ''images/logo.png'' empty_world)
     = fst (handleGetRequest (demo_env PutRejects False True)
          (demo_request ''GET'' ''read-cdn.example'' ''/images/logo.png'' [])
          ''images/logo.png'' empty_world) \<and>
   net_fetch ((demo_env PutSucceeds False False)\<lparr>net_fetch := \<lambda>u. FetchResponse 204 [] []\<rparr>)
       (sourceUrl ((demo_env PutSucceeds False False)
                     \<lparr>net_fetch := \<lambda>u. FetchResponse 204 [] []\<rparr>) ''images/logo.png'')
     = FetchResponse 204 [] [] \<and>
   response_ok 204 \<and>
   (case handleGetRequest
           ((demo_env PutSucceeds False False)\<lparr>net_fetch := \<lambda>u. FetchResponse 204 [] []\<rparr>)
           (demo_request ''GET'' ''read-cdn.example'' ''/images/logo.png'' [])
           ''images/logo.png'' empty_world of
      (res, w') \<Rightarrow>
        trace w' =
          [R2Get ''images/logo.png'',
           OriginFetch ''https://origin.example/assets/images/logo.png'',
           R2Put ''images/logo.png'' None,
           QueueSend \<lparr>ev_key = ''images/logo.png'', ev_action = LAZY_LOADED,
                      ev_timestamp = ''2024-01-01T00:00:00.000Z''\<rparr>]
      \<and> queue w' = [\<lparr>ev_key = ''images/logo.png'', ev_action = LAZY_LOADED,
                      ev_timestamp = ''2024-01-01T00:00:00.000Z''\<rparr>])"
  using origin_hit_side_effects [where objectKey = "''images/logo.png''" and w = empty_world
      and e = "demo_env PutRejects False True" and st = 200
      and hs = "[(''content-type'', ''image/png''), (''etag'', ''\"abc\"'')]" and bs = "''PNG''"
      and req = "demo_request ''GET'' ''read-cdn.example'' ''/images/logo.png'' []"
      and sf = False]
    origin_hit_side_effects [where objectKey = "''images/logo.png''" and w = empty_world
      and e = "(demo_env PutSucceeds False False)\<lparr>net_fetch := \<lambda>u. FetchResponse 204 [] []\<rparr>"
      and st = 204 and hs = "[]" and bs = "[]"
      and req = "demo_request ''GET'' ''read-cdn.example'' ''/images/logo.png'' []"
      and sf = False]
  by (simp add: demo_defs sourceUrl_def response_ok_def case_prod_beta is_put_def is_send_def
      null_body_def)

section \<open>Routing and access\<close>

text \<open>
  Claim C1, as the code has it. The access guard runs before the method is looked at, and
  it tests the hostname: a GET or HEAD on a hostname that matches the write pattern,
  without a non-empty \<open>Authorization\<close> header, fails with \<open>AccessDenied\<close> (401) and no
  store is consulted. Every other GET or HEAD is handed to \<open>handleGetRequest\<close>, whatever
  the hostname, and \<open>handleGetRequest\<close> itself never fails with \<open>AccessDenied\<close>.
\<close>

theorem reads_pass_behind_the_guard:
  assumes "req_method req = ''GET'' \<or> req_method req = ''HEAD''"
  shows "fetch_try e req w =
           (if WRITE_HOSTNAME_PATTERN e (req_hostname req)
               \<and> \<not> truthy (headers_get (req_headers req) ''Authorization'')
            then (Inl (StorageError ''Authentication required'' 401 ''AccessDenied''), w)
            else handleGetRequest e req (objectKey_of (req_pathname req)) w)
       \<and> (\<forall>err. fst (handleGetRequest e req k w) = Inl err
                  \<longrightarrow> error_code err \<noteq> ''AccessDenied'')"
proof -
  have a: "fetch_try e req w =
           (if WRITE_HOSTNAME_PATTERN e (req_hostname req)
               \<and> \<not> truthy (headers_get (req_headers req) ''Authorization'')
            then (Inl (StorageError ''Authentication required'' 401 ''AccessDenied''), w)
            else handleGetRequest e req (objectKey_of (req_pathname req)) w)"
    using assms by (auto simp add: fetch_try_read passes_guard_def)
  have b: "error_code err \<noteq> ''AccessDenied''" if "fst (handleGetRequest e req k w) = Inl err" for err
    using handleGet_errors[OF that] by (auto simp add: error_code_def)
  show ?thesis using a b by blast
qed

text \<open>
  Claim C1 as stated fails: a GET without \<open>Authorization\<close> on a write hostname is
  answered 401 \<open>AccessDenied\<close>, although the bucket holds the key.
\<close>

theorem read_on_write_host_is_denied:
  "fetch (demo_env PutSucceeds False False)
     (demo_request ''GET'' ''write-cdn.example'' ''/images/logo.png'' []) stocked_world
   = (formatErrorResponse (demo_env PutSucceeds False False)
        (StorageError ''Authentication required'' 401 ''AccessDenied''), stocked_world)
   \<and> resp_status (fst (fetch (demo_env PutSucceeds False False)
        (demo_request ''GET'' ''write-cdn.example'' ''/images/logo.png'' []) stocked_world)) = 401
   \<and> bucket stocked_world ''images/logo.png'' = Some logo"
  by (simp add: fetch_def fetch_try_def validateAuth_def demo_defs header_defs startsWith_def
      formatErrorResponse_def error_status_def)

theorem reads_pass_behind_the_guard_witness:
  "(req_method (demo_request ''GET'' ''write-cdn.example'' ''/images/logo.png''
        [(''authorization'', ''AWS4-HMAC-SHA256 x'')]) = ''GET''
    \<or> req_method (demo_request ''GET'' ''write-cdn.example'' ''/images/logo.png''
        [(''authorization'', ''AWS4-HMAC-SHA256 x'')]) = ''HEAD'') \<and>
   fetch_try (demo_env PutSucceeds False False)
     (demo_request ''GET'' ''write-cdn.example'' ''/images/logo.png''
        [(''authorization'', ''AWS4-HMAC-SHA256 x'')]) stocked_world
   = handleGetRequest (demo_env PutSucceeds False False)
       (demo_request ''GET'' ''write-cdn.example'' ''/images/logo.png''
          [(''authorization'', ''AWS4-HMAC-SHA256 x'')]) ''images/logo.png'' stocked_world \<and>
   fst (handleGetRequest (demo_env PutSucceeds False False)
       (demo_request ''GET'' ''write-cdn.example'' ''/images/logo.png''
          [(''authorization'', ''AWS4-HMAC-SHA256 x'')]) ''images/none.png'' stocked_world)
   = Inl (StorageError ''Object not found'' 404 ''NoSuchKey'') \<and>
   error_code (StorageError ''Object not found'' 404 ''NoSuchKey'') \<noteq> ''AccessDenied''"
  using reads_pass_behind_the_guard [where req = "demo_request ''GET'' ''write-cdn.example'' ''/images/logo.png''
        [(''authorization'', ''AWS4-HMAC-SHA256 x'')]"
      and e = "demo_env PutSucceeds False False" and w = stocked_world
      and k = "''images/none.png''"]
    handleGet_miss [where k = "''images/none.png''" and w = stocked_world
      and e = "demo_env PutSucceeds False False"
      and req = "demo_request ''GET'' ''write-cdn.example'' ''/images/logo.png''
        [(''authorization'', ''AWS4-HMAC-SHA256 x'')]"]
  by (simp add: demo_defs header_defs startsWith_def objectKey_of_def origin_fails_def
      sourceUrl_def response_ok_def error_code_def)

text \<open>
  Claim C8, as the code has it. A PUT or DELETE on a hostname that does not match the
  write pattern fails with \<open>AccessDenied\<close> (403), whatever its headers; on a write
  hostname without a non-empty \<open>Authorization\<close> header it fails with \<open>AccessDenied\<close>
  (401); on a write hostname with one, and with a non-empty object key, the first thing
  the worker does is the \<open>put\<close> or the \<open>delete\<close> on the bucket.
\<close>

theorem writes_need_host_and_credential:
  assumes "req_method req = ''PUT'' \<or> req_method req = ''DELETE''"
  shows "(\<not> WRITE_HOSTNAME_PATTERN e (req_hostname req) \<longrightarrow>
            fetch_try e req w =
              (Inl (StorageError
                      (if req_method req = ''PUT''
                       then ''Write operations not allowed on this endpoint''
                       else ''Delete operations not allowed on this endpoint'')
                      403 ''AccessDenied''), w)
            \<and> resp_status (fst (fetch e req w)) = 403)
       \<and> (WRITE_HOSTNAME_PATTERN e (req_hostname req)
            \<and> \<not> truthy (headers_get (req_headers req) ''Authorization'') \<longrightarrow>
            fetch_try e req w =
              (Inl (StorageError ''Authentication required'' 401 ''AccessDenied''), w)
            \<and> resp_status (fst (fetch e req w)) = 401)
       \<and> (WRITE_HOSTNAME_PATTERN e (req_hostname req)
            \<and> truthy (headers_get (req_headers req) ''Authorization'')
            \<and> objectKey_of (req_pathname req) \<noteq> [] \<longrightarrow>
            (\<exists>cs. trace (snd (fetch_try e req w)) =
                    trace w @
                    (if req_method req = ''PUT''
                     then R2Put (objectKey_of (req_pathname req)) (req_body req)
                     else R2Delete (objectKey_of (req_pathname req))) # cs))"
proof -
  have put: "\<exists>cs. trace (snd (handlePutRequest e req k w)) = trace w @ R2Put k (req_body req) # cs"
    if "k \<noteq> []" for k
    using that
    by (auto simp add: handlePutRequest_def R2_put_def queueSyncTask_def SYNC_QUEUE_send_def
        disturb_def new_Response_def Let_def
        split: put_behaviour.splits option.splits sum.splits)
  have del: "\<exists>cs. trace (snd (handleDeleteRequest e req k w)) = trace w @ R2Delete k # cs"
    if "k \<noteq> []" for k
    using that
    by (auto simp add: handleDeleteRequest_def R2_delete_def queueSyncTask_def
        SYNC_QUEUE_send_def Let_def)
  show ?thesis
    using assms put del
    by (auto simp add: fetch_def fetch_try_def validateAuth_def Let_def formatErrorResponse_def
        error_status_def)
qed

text \<open>
  Claim C8 as stated fails: a PUT on a write hostname with an \<open>Authorization\<close> header
  but an empty object key is refused with \<open>InvalidKey\<close>, and the bucket is not called;
  and a PUT whose \<open>Authorization\<close> header is present but empty is refused with
  \<open>AccessDenied\<close>.
\<close>

theorem authorized_put_of_empty_key_stores_nothing:
  "WRITE_HOSTNAME_PATTERN (demo_env PutSucceeds False False) ''write-cdn.example'' \<and>
   headers_get [(''authorization'', ''AWS4-HMAC-SHA256 x'')] ''Authorization''
     = Some ''AWS4-HMAC-SHA256 x'' \<and>
   fetch_try (demo_env PutSucceeds False False)
     (demo_request ''PUT'' ''write-cdn.example'' ''/''
        [(''authorization'', ''AWS4-HMAC-SHA256 x'')]) empty_world
   = (Inl (StorageError ''Invalid object key'' 400 ''InvalidKey''), empty_world) \<and>
   trace empty_world = [] \<and>
   headers_get [(''authorization'', [])] ''Authorization'' = Some [] \<and>
   fetch_try (demo_env PutSucceeds False False)
     (demo_request ''PUT'' ''write-cdn.example'' ''/images/logo.png''
        [(''authorization'', [])]) empty_world
   = (Inl (StorageError ''Authentication required'' 401 ''AccessDenied''), empty_world)"
  by (simp add: fetch_try_def validateAuth_def handlePutRequest_def demo_defs header_defs
      startsWith_def objectKey_of_def)

theorem writes_need_host_and_credential_witness:
  "(req_method (demo_request ''DELETE'' ''read-cdn.example'' ''/images/logo.png''
        [(''authorization'', ''AWS4-HMAC-SHA256 x'')]) = ''DELETE'') \<and>
   fetch_try (demo_env PutSucceeds False False)
     (demo_request ''DELETE'' ''read-cdn.example'' ''/images/logo.png''
        [(''authorization'', ''AWS4-HMAC-SHA256 x'')]) stocked_world
   = (Inl (StorageError ''Delete operations not allowed on this endpoint'' 403
             ''AccessDenied''), stocked_world) \<and>
   fetch_try (demo_env PutSucceeds False False)
     (demo_request ''PUT'' ''write-cdn.example'' ''/images/logo.png'' []) stocked_world
   = (Inl (StorageError ''Authentication required'' 401 ''AccessDenied''), stocked_world) \<and>
   (\<exists>cs. trace (snd (fetch_try (demo_env PutSucceeds False False)
             (demo_request ''PUT'' ''write-cdn.example'' ''/images/logo.png''
                [(''authorization'', ''AWS4-HMAC-SHA256 x'')]) stocked_world))
          = R2Put ''images/logo.png'' None # cs)"
  using writes_need_host_and_credential [where req = "demo_request ''DELETE'' ''read-cdn.example'' ''/images/logo.png''
        [(''authorization'', ''AWS4-HMAC-SHA256 x'')]"
      and e = "demo_env PutSucceeds False False" and w = stocked_world]
    writes_need_host_and_credential [where req = "demo_request ''PUT'' ''write-cdn.example'' ''/images/logo.png'' []"
      and e = "demo_env PutSucceeds False False" and w = stocked_world]
    writes_need_host_and_credential [where req = "demo_request ''PUT'' ''write-cdn.example'' ''/images/logo.png''
        [(''authorization'', ''AWS4-HMAC-SHA256 x'')]"
      and e = "demo_env PutSucceeds False False" and w = stocked_world]
  by (simp add: demo_defs header_defs startsWith_def objectKey_of_def)

text \<open>
  Claim C9, as the code has it. With an empty object key, the access checks come first:
  a write hostname without a non-empty \<open>Authorization\<close> header gives \<open>AccessDenied\<close>
  (401) for every method, and a PUT or DELETE on a hostname that is not a write hostname
  gives \<open>AccessDenied\<close> (403). Behind them a GET or HEAD gives \<open>NotImplemented\<close> (501),
  a PUT or DELETE gives \<open>InvalidKey\<close> (400), an OPTIONS is answered 200 with the CORS
  headers, and any other method gives \<open>MethodNotAllowed\<close> (405). No store is called.
\<close>

theorem empty_key_outcomes:
  assumes "objectKey_of (req_pathname req) = []"
  shows "fetch_try e req w =
     (if WRITE_HOSTNAME_PATTERN e (req_hostname req)
           \<and> \<not> truthy (headers_get (req_headers req) ''Authorization'')
      then Inl (StorageError ''Authentication required'' 401 ''AccessDenied'')
      else if req_method req = ''GET'' \<or> req_method req = ''HEAD''
      then Inl (StorageError ''Bucket listing not implemented'' 501 ''NotImplemented'')
      else if req_method req = ''PUT'' \<or> req_method req = ''DELETE''
      then (if \<not> WRITE_HOSTNAME_PATTERN e (req_hostname req)
            then Inl (StorageError
                        (if req_method req = ''PUT''
                         then ''Write operations not allowed on this endpoint''
                         else ''Delete operations not allowed on this endpoint'')
                        403 ''AccessDenied'')
            else Inl (StorageError ''Invalid object key'' 400 ''InvalidKey''))
      else if req_method req = ''OPTIONS''
      then Inr \<lparr>resp_status = 200,
                resp_headers =
                  [(''access-control-allow-origin'', ''*''),
                   (''access-control-allow-methods'', ''GET, PUT, DELETE, HEAD, OPTIONS''),
                   (''access-control-allow-headers'',
                    ''Content-Type, Authorization, X-Amz-Date, X-Amz-Content-Sha256, Content-MD5''),
                   (''access-control-max-age'', ''86400'')],
                resp_body = BodyNull\<rparr>
      else Inl (StorageError (''Method '' @ req_method req @ '' not supported'') 405
                  ''MethodNotAllowed''), w)"
  using assms
  by (auto simp add: fetch_try_def validateAuth_def Let_def handleGetRequest_def
      handlePutRequest_def handleDeleteRequest_def handleOptionsRequest_eval)

text \<open>
  Claim C9 as stated fails: with the empty path, a GET on a write hostname without
  \<open>Authorization\<close> is answered 401, not 501, and a PUT on a read hostname 403, not 400.
\<close>

theorem empty_key_meets_the_guards_first:
  "objectKey_of ''/'' = [] \<and>
   fetch (demo_env PutSucceeds False False)
     (demo_request ''GET'' ''write-cdn.example'' ''/'' []) empty_world
   = (formatErrorResponse (demo_env PutSucceeds False False)
        (StorageError ''Authentication required'' 401 ''AccessDenied''), empty_world) \<and>
   resp_status (fst (fetch (demo_env PutSucceeds False False)
     (demo_request ''GET'' ''write-cdn.example'' ''/'' []) empty_world)) = 401 \<and>
   fetch (demo_env PutSucceeds False False)
     (demo_request ''PUT'' ''read-cdn.example'' ''/'' []) empty_world
   = (formatErrorResponse (demo_env PutSucceeds False False)
        (StorageError ''Write operations not allowed on this endpoint'' 403 ''AccessDenied''),
      empty_world) \<and>
   resp_status (fst (fetch (demo_env PutSucceeds False False)
     (demo_request ''PUT'' ''read-cdn.example'' ''/'' []) empty_world)) = 403"
  by (simp add: fetch_def fetch_try_def validateAuth_def demo_defs header_defs startsWith_def
      objectKey_of_def formatErrorResponse_def error_status_def)

theorem empty_key_outcomes_witness:
  "objectKey_of (req_pathname (demo_request ''GET'' ''read-cdn.example'' ''/'' [])) = [] \<and>
   fetch_try (demo_env PutSucceeds False False)
     (demo_request ''GET'' ''read-cdn.example'' ''/'' []) empty_world
   = (Inl (StorageError ''Bucket listing not implemented'' 501 ''NotImplemented''), empty_world) \<and>
   objectKey_of (req_pathname (demo_request ''DELETE'' ''write-cdn.example'' ''//''
        [(''authorization'', ''AWS4-HMAC-SHA256 x'')])) = [] \<and>
   fetch_try (demo_env PutSucceeds False False)
     (demo_request ''DELETE'' ''write-cdn.example'' ''//''
        [(''authorization'', ''AWS4-HMAC-SHA256 x'')]) empty_world
   = (Inl (StorageError ''Invalid object key'' 400 ''InvalidKey''), empty_world) \<and>
   objectKey_of (req_pathname (demo_request ''OPTIONS'' ''write-cdn.example'' ''/'' [])) = [] \<and>
   fetch_try (demo_env PutSucceeds False False)
     (demo_request ''OPTIONS'' ''write-cdn.example'' ''/'' []) empty_world
   = (Inl (StorageError ''Authentication required'' 401 ''AccessDenied''), empty_world) \<and>
   fetch_try (demo_env PutSucceeds False False)
     (demo_request ''OPTIONS'' ''read-cdn.example'' ''/'' []) empty_world
   = (Inr \<lparr>resp_status = 200,
           resp_headers =
             [(''access-control-allow-origin'', ''*''),
              (''access-control-allow-methods'', ''GET, PUT, DELETE, HEAD, OPTIONS''),
              (''access-control-allow-headers'',
               ''Content-Type, Authorization, X-Amz-Date, X-Amz-Content-Sha256, Content-MD5''),
              (''access-control-max-age'', ''86400'')],
           resp_body = BodyNull\<rparr>, empty_world) \<and>
   fetch_try (demo_env PutSucceeds False False)
     (demo_request ''PATCH'' ''read-cdn.example'' ''/'' []) empty_world
   = (Inl (StorageError ''Method PATCH not supported'' 405 ''MethodNotAllowed''), empty_world)"
  using empty_key_outcomes [where req = "demo_request ''GET'' ''read-cdn.example'' ''/'' []"
      and e = "demo_env PutSucceeds False False" and w = empty_world]
    empty_key_outcomes [where req = "demo_request ''DELETE'' ''write-cdn.example'' ''//''
        [(''authorization'', ''AWS4-HMAC-SHA256 x'')]"
      and e = "demo_env PutSucceeds False False" and w = empty_world]
    empty_key_outcomes [where req = "demo_request ''OPTIONS'' ''write-cdn.example'' ''/'' []"
      and e = "demo_env PutSucceeds False False" and w = empty_world]
    empty_key_outcomes [where req = "demo_request ''OPTIONS'' ''read-cdn.example'' ''/'' []"
      and e = "demo_env PutSucceeds False False" and w = empty_world]
    empty_key_outcomes [where req = "demo_request ''PATCH'' ''read-cdn.example'' ''/'' []"
      and e = "demo_env PutSucceeds False False" and w = empty_world]
  by (simp add: demo_defs header_defs startsWith_def objectKey_of_def)

text \<open>
  Claim C10, as the code has it. For a DELETE that passes the access checks, with a
  non-empty key: when the bucket's \<open>delete\<close> does not throw, the response is 204 with no
  body, one \<open>DELETED\<close> event is sent (it is in the queue unless the \<open>send\<close> fails) and
  the key is gone; when the \<open>delete\<close> throws, the response is \<open>InternalError\<close> (500)
  and nothing is sent. In both cases the response is the same whatever the bucket holds.
\<close>

theorem delete_ignores_existence:
  assumes "req_method req = ''DELETE''"
    and "WRITE_HOSTNAME_PATTERN e (req_hostname req)"
    and "truthy (headers_get (req_headers req) ''Authorization'')"
    and "objectKey_of (req_pathname req) = objectKey" and "objectKey \<noteq> []"
  shows "(\<not> delete_fails e \<longrightarrow>
            (case fetch e req w of
               (r, w') \<Rightarrow>
                 r = \<lparr>resp_status = 204, resp_headers = [], resp_body = BodyNull\<rparr>
               \<and> trace w' = trace w @
                   [R2Delete objectKey,
                    QueueSend \<lparr>ev_key = objectKey, ev_action = DELETED,
                               ev_timestamp = now_iso e\<rparr>]
               \<and> queue w' = queue w @
                   (if send_fails e then []
                    else [\<lparr>ev_key = objectKey, ev_action = DELETED,
                            ev_timestamp = now_iso e\<rparr>])
               \<and> bucket w' = (bucket w)(objectKey := None)))
       \<and> (delete_fails e \<longrightarrow>
            (case fetch e req w of
               (r, w') \<Rightarrow>
                 r = formatErrorResponse e (StorageError ''Delete failed'' 500 ''InternalError'')
               \<and> resp_status r = 500
               \<and> trace w' = trace w @ [R2Delete objectKey]
               \<and> queue w' = queue w \<and> bucket w' = bucket w))
       \<and> fst (fetch e req (w\<lparr>bucket := b\<rparr>)) = fst (fetch e req w)"
  using assms
  by (simp add: fetch_def fetch_try_def validateAuth_def Let_def handleDeleteRequest_def
      R2_delete_def queueSyncTask_def SYNC_QUEUE_send_def new_Response_def
      formatErrorResponse_def error_status_def log_call_def)

text \<open>
  Claim C10 as stated fails: when the bucket's \<open>delete\<close> throws, an authorized DELETE of a
  non-empty key is answered 500 and no event is sent; and when the \<open>send\<close> fails, the
  answer is 204 but no event is in the queue.
\<close>

theorem failed_delete_is_internal_error:
  "fetch (demo_env PutSucceeds True False)
     (demo_request ''DELETE'' ''write-cdn.example'' ''/images/logo.png''
        [(''authorization'', ''AWS4-HMAC-SHA256 x'')]) stocked_world
   = (formatErrorResponse (demo_env PutSucceeds True False)
        (StorageError ''Delete failed'' 500 ''InternalError''),
      stocked_world\<lparr>trace := [R2Delete ''images/logo.png'']\<rparr>) \<and>
   resp_status (fst (fetch (demo_env PutSucceeds True False)
     (demo_request ''DELETE'' ''write-cdn.example'' ''/images/logo.png''
        [(''authorization'', ''AWS4-HMAC-SHA256 x'')]) stocked_world)) = 500 \<and>
   queue (snd (fetch (demo_env PutSucceeds True False)
     (demo_request ''DELETE'' ''write-cdn.example'' ''/images/logo.png''
        [(''authorization'', ''AWS4-HMAC-SHA256 x'')]) stocked_world)) = [] \<and>
   resp_status (fst (fetch (demo_env PutSucceeds False True)
     (demo_request ''DELETE'' ''write-cdn.example'' ''/images/logo.png''
        [(''authorization'', ''AWS4-HMAC-SHA256 x'')]) stocked_world)) = 204 \<and>
   queue (snd (fetch (demo_env PutSucceeds False True)
     (demo_request ''DELETE'' ''write-cdn.example'' ''/images/logo.png''
        [(''authorization'', ''AWS4-HMAC-SHA256 x'')]) stocked_world)) = []"
  by (simp add: fetch_def fetch_try_def validateAuth_def handleDeleteRequest_def R2_delete_def
      queueSyncTask_def SYNC_QUEUE_send_def new_Response_def
      demo_defs header_defs startsWith_def objectKey_of_def formatErrorResponse_def
      error_status_def log_call_def)

theorem delete_ignores_existence_witness:
  "req_method (demo_request ''DELETE'' ''write-cdn.example'' ''/images/logo.png''
        [(''authorization'', ''AWS4-HMAC-SHA256 x'')]) = ''DELETE'' \<and>
   WRITE_HOSTNAME_PATTERN (demo_env PutSucceeds False False) ''write-cdn.example'' \<and>
   truthy (headers_get [(''authorization'', ''AWS4-HMAC-SHA256 x'')] ''Authorization'') \<and>
   objectKey_of ''/images/logo.png'' = ''images/logo.png'' \<and>
   \<not> delete_fails (demo_env PutSucceeds False False) \<and>
   (case fetch (demo_env PutSucceeds False False)
      (demo_request ''DELETE'' ''write-cdn.example'' ''/images/logo.png''
        [(''authorization'', ''AWS4-HMAC-SHA256 x'')]) stocked_world of
      (r, w') \<Rightarrow>
        r = \<lparr>resp_status = 204, resp_headers = [], resp_body = BodyNull\<rparr>
      \<and> trace w' =
          [R2Delete ''images/logo.png'',
           QueueSend \<lparr>ev_key = ''images/logo.png'', ev_action = DELETED,
                      ev_timestamp = ''2024-01-01T00:00:00.000Z''\<rparr>]
      \<and> queue w' =
          [\<lparr>ev_key = ''images/logo.png'', ev_action = DELETED,
             ev_timestamp = ''2024-01-01T00:00:00.000Z''\<rparr>]
      \<and> bucket w' ''images/logo.png'' = None) \<and>
   fst (fetch (demo_env PutSucceeds False False)
      (demo_request ''DELETE'' ''write-cdn.example'' ''/images/logo.png''
        [(''authorization'', ''AWS4-HMAC-SHA256 x'')]) (stocked_world\<lparr>bucket := Map.empty\<rparr>))
   = fst (fetch (demo_env PutSucceeds False False)
      (demo_request ''DELETE'' ''write-cdn.example'' ''/images/logo.png''
        [(''authorization'', ''AWS4-HMAC-SHA256 x'')]) stocked_world) \<and>
   delete_fails (demo_env PutSucceeds True False) \<and>
   resp_status (fst (fetch (demo_env PutSucceeds True False)
      (demo_request ''DELETE'' ''write-cdn.example'' ''/images/logo.png''
        [(''authorization'', ''AWS4-HMAC-SHA256 x'')]) stocked_world)) = 500"
  using delete_ignores_existence [where req = "demo_request ''DELETE'' ''write-cdn.example'' ''/images/logo.png''
        [(''authorization'', ''AWS4-HMAC-SHA256 x'')]"
      and e = "demo_env PutSucceeds False False" and w = stocked_world
      and objectKey = "''images/logo.png''" and b = Map.empty]
    delete_ignores_existence [where req = "demo_request ''DELETE'' ''write-cdn.example'' ''/images/logo.png''
        [(''authorization'', ''AWS4-HMAC-SHA256 x'')]"
      and e = "demo_env PutSucceeds True False" and w = stocked_world
      and objectKey = "''images/logo.png''" and b = Map.empty]
  by (simp add: demo_defs header_defs startsWith_def objectKey_of_def case_prod_beta
      formatErrorResponse_def error_status_def)

section \<open>Lazy loading\<close>




text \<open>
  Claim C3 does not hold of the code. The stream of the fetched object is given to
  \<open>put\<close> (\<open>R2Put\<close> of stream 0 in the trace) and then to \<open>new Response\<close>, untouched by
  any tee or buffer. On a GET of a key that only the source storage holds, the write-back
  reads the stream and stores the bytes, the constructor then throws, and the client is
  answered 500 instead of the fetched body.
\<close>

theorem lazy_loaded_get_reuses_the_stream:
  "fst (fetch (demo_env PutSucceeds False False)
          (demo_request ''GET'' ''read-cdn.example'' ''/images/logo.png'' []) empty_world)
     = formatErrorResponse (demo_env PutSucceeds False False)
         (PlatformError ''This ReadableStream is disturbed'') \<and>
   resp_status (fst (fetch (demo_env PutSucceeds False False)
          (demo_request ''GET'' ''read-cdn.example'' ''/images/logo.png'' []) empty_world)) = 500 \<and>
   trace (snd (fetch (demo_env PutSucceeds False False)
          (demo_request ''GET'' ''read-cdn.example'' ''/images/logo.png'' []) empty_world))
     = [R2Get ''images/logo.png'',
        OriginFetch ''https://origin.example/assets/images/logo.png'',
        R2Put ''images/logo.png'' (Some 0),
        QueueSend \<lparr>ev_key = ''images/logo.png'', ev_action = LAZY_LOADED,
                   ev_timestamp = ''2024-01-01T00:00:00.000Z''\<rparr>] \<and>
   streams (snd (fetch (demo_env PutSucceeds False False)
          (demo_request ''GET'' ''read-cdn.example'' ''/images/logo.png'' []) empty_world))
     = [\<lparr>bytes = ''PNG'', disturbed = True\<rparr>] \<and>
   map_option s_data (bucket (snd (fetch (demo_env PutSucceeds False False)
          (demo_request ''GET'' ''read-cdn.example'' ''/images/logo.png'' []) empty_world))
        ''images/logo.png'') = Some ''PNG''"
  by (simp add: worker_defs demo_defs header_defs)

text \<open>
  Claim C5 does not hold of the code, for the same reason. When the \<open>put\<close> fails after
  it has read the body, \<open>storeObjectInR2\<close> absorbs its exception, but the GET is then
  answered 500: the response is built on the stream that the failed \<open>put\<close> has read.
  (When the \<open>put\<close> fails before it reads the body, and for a HEAD, the response is 200:
  \<open>handleGet_lazy\<close>.)
\<close>

theorem aborted_write_back_fails_the_read:
  "put_behaviour (demo_env PutAborts False False) = PutAborts \<and>
   fst (fetch (demo_env PutAborts False False)
          (demo_request ''GET'' ''read-cdn.example'' ''/images/logo.png'' []) empty_world)
     = formatErrorResponse (demo_env PutAborts False False)
         (PlatformError ''This ReadableStream is disturbed'') \<and>
   resp_status (fst (fetch (demo_env PutAborts False False)
          (demo_request ''GET'' ''read-cdn.example'' ''/images/logo.png'' []) empty_world)) = 500 \<and>
   trace (snd (fetch (demo_env PutAborts False False)
          (demo_request ''GET'' ''read-cdn.example'' ''/images/logo.png'' []) empty_world))
     = [R2Get ''images/logo.png'',
        OriginFetch ''https://origin.example/assets/images/logo.png'',
        R2Put ''images/logo.png'' (Some 0),
        QueueSend \<lparr>ev_key = ''images/logo.png'', ev_action = LAZY_LOADED,
                   ev_timestamp = ''2024-01-01T00:00:00.000Z''\<rparr>] \<and>
   bucket (snd (fetch (demo_env PutAborts False False)
          (demo_request ''GET'' ''read-cdn.example'' ''/images/logo.png'' []) empty_world))
        ''images/logo.png'' = None"
  by (simp add: worker_defs demo_defs header_defs)

end
